theory Spec2Isabelle
  imports Main "HOL-Library.Word"
begin

section \<open>Errors and RPC outcomes\<close>

text \<open>
  The Go functions return \<open>(result, error)\<close> pairs. An error is a value of the datatype
  below. The i18n message keys of package \<open>msgs\<close> are named after the key used in
  \<open>get_receipt.go\<close> or after the code the tests of the reconciler match against
  (\<open>FF23061\<close>, \<open>FF23062\<close>, \<open>FF23011\<close>).
\<close>

datatype error =
    RPCError string                   \<comment> \<open>\<open>rpcErr.Error()\<close>: the transport error, as it is\<close>
  | MsgReceiptNotAvailable string     \<comment> \<open>\<open>msgs.MsgReceiptNotAvailable\<close>, with the transaction hash\<close>
  | TransactionNotFound_FF23061 string
  | ChainNotCaughtUp_FF23062
  | BlockNotAvailable_FF23011
  | FailedToBuildConfirmationQueue
  | InvalidExistingConfirmations

text \<open>\<open>ffcapi.ErrorReason\<close>: the empty reason \<open>""\<close> or \<open>ffcapi.ErrorReasonNotFound\<close>.\<close>

datatype ErrorReason = NoReason | ErrorReasonNotFound

section \<open>The receipt probe (\<open>internal/ethereum/get_receipt.go\<close>)\<close>

text \<open>
  \<open>ethtypes.HexBytes0xPrefix\<close> is a byte slice, \<open>ethtypes.HexInteger\<close> and
  \<open>fftypes.FFBigInt\<close> are \<open>big.Int\<close> (an unbounded integer), and a Go pointer field is an
  option. The \<open>Logs\<close> field of the JSON/RPC receipt is cleared by the function and reaches
  no output; it is left out of the record.
\<close>

type_synonym HexBytes0xPrefix = "8 word list"

record txReceiptJSONRPC =
  BlockHash :: HexBytes0xPrefix
  BlockNumber :: "int option"
  ContractAddress :: "HexBytes0xPrefix option"
  CumulativeGasUsed :: "int option"
  From :: "HexBytes0xPrefix option"
  GasUsed :: "int option"
  Status :: "int option"
  To :: "HexBytes0xPrefix option"
  TransactionHash :: HexBytes0xPrefix
  TransactionIndex :: "int option"

text \<open>\<open>receiptExtraInfo\<close>, the value that is marshalled into \<open>ExtraInfo\<close>.\<close>

record receiptExtraInfo =
  xContractAddress :: "HexBytes0xPrefix option"
  xCumulativeGasUsed :: "int option"
  xFrom :: "HexBytes0xPrefix option"
  xTo :: "HexBytes0xPrefix option"
  xGasUsed :: "int option"
  xStatus :: "int option"

text \<open>\<open>ffcapi.TransactionReceiptResponse\<close>, with the fields the function sets.\<close>

record TransactionReceiptResponse =
  respBlockNumber :: "int option"
  respTransactionIndex :: "int option"
  respBlockHash :: string
  respSuccess :: bool
  respProtocolID :: string
  respExtraInfo :: receiptExtraInfo

text \<open>
  \<open>big.Int.Int64()\<close>: the low 64 bits of the magnitude as an \<open>int64\<close>, negated for a
  negative number; that is the two's complement reading of the number modulo \<open>2 ^ 64\<close>.
\<close>

definition Int64 :: "int \<Rightarrow> int" where
  "Int64 x = sint (word_of_int x :: 64 word)"

text \<open>Decimal digits of a natural number, most significant first.\<close>

fun decimal :: "nat \<Rightarrow> string" where
  "decimal n =
     (if n < 10 then [char_of (48 + n)]
      else decimal (n div 10) @ [char_of (48 + n mod 10)])"

declare decimal.simps [simp del]

text \<open>
  \<open>fmt.Sprintf("%.<p>d", x)\<close> for \<open>x\<close> a \<open>*big.Int\<close>: a nil pointer prints \<open><nil>\<close>;
  otherwise the sign, then the digits padded with zeros to at least \<open>p\<close> digits (and no
  digit at all for zero at precision zero).
\<close>

definition sprintf_prec_d :: "nat \<Rightarrow> int option \<Rightarrow> string" where
  "sprintf_prec_d p v =
     (case v of
        None \<Rightarrow> ''<nil>''
      | Some x \<Rightarrow>
          (let ds = (if p = 0 \<and> x = 0 then [] else decimal (nat \<bar>x\<bar>))
           in (if x < 0 then ''-'' else []) @ replicate (p - length ds) (CHR ''0'') @ ds))"

definition ProtocolIDForReceipt :: "int option \<Rightarrow> int option \<Rightarrow> string" where
  "ProtocolIDForReceipt blockNumber transactionIndex =
     sprintf_prec_d 12 blockNumber @ ''/'' @ sprintf_prec_d 6 transactionIndex"

text \<open>\<open>HexBytes0xPrefix.String()\<close>: \<open>0x\<close> and two lower-case hex digits a byte.\<close>

definition hexdigit :: "nat \<Rightarrow> char" where
  "hexdigit d = (if d < 10 then char_of (48 + d) else char_of (87 + d))"

definition hexString :: "HexBytes0xPrefix \<Rightarrow> string" where
  "hexString bs = ''0x'' @ concat (map (\<lambda>b. [hexdigit (unat b div 16), hexdigit (unat b mod 16)]) bs)"

text \<open>
  \<open>TransactionReceipt\<close>. \<open>CallRPC\<close> returns an error or nil and, through the pointer it
  is given, the receipt or nil (JSON \<open>null\<close>): the two are the first two arguments. The
  result is the triple the Go function returns: response, reason, error.
\<close>

definition TransactionReceipt ::
  "string option \<Rightarrow> txReceiptJSONRPC option \<Rightarrow> string
     \<Rightarrow> TransactionReceiptResponse option \<times> ErrorReason \<times> error option" where
  "TransactionReceipt rpcErr ethReceipt transactionHash =
     (case rpcErr of
        Some e \<Rightarrow> (None, NoReason, Some (RPCError e))
      | None \<Rightarrow>
          (case ethReceipt of
             None \<Rightarrow> (None, ErrorReasonNotFound, Some (MsgReceiptNotAvailable transactionHash))
           | Some r \<Rightarrow>
               (let isSuccess = (case Status r of None \<Rightarrow> False | Some s \<Rightarrow> Int64 s > 0);
                    fullReceipt = \<lparr> xContractAddress = ContractAddress r,
                                    xCumulativeGasUsed = CumulativeGasUsed r,
                                    xFrom = From r,
                                    xTo = To r,
                                    xGasUsed = GasUsed r,
                                    xStatus = Status r \<rparr>;
                    txIndex = (case TransactionIndex r of None \<Rightarrow> 0 | Some i \<Rightarrow> Int64 i)
                in (Some \<lparr> respBlockNumber = BlockNumber r,
                           respTransactionIndex = Some txIndex,
                           respBlockHash = hexString (BlockHash r),
                           respSuccess = isSuccess,
                           respProtocolID = ProtocolIDForReceipt (BlockNumber r) (Some txIndex),
                           respExtraInfo = fullReceipt \<rparr>,
                    NoReason, None))))"

text \<open>A receipt whose status is \<open>2 ^ 63\<close>, as the JSON \<open>"status":"0x8000000000000000"\<close> gives.\<close>

definition receipt_status_2_63 :: txReceiptJSONRPC where
  "receipt_status_2_63 =
     \<lparr> BlockHash = [0x12, 0x34], BlockNumber = Some 1977, ContractAddress = None,
       CumulativeGasUsed = Some 21000, From = None, GasUsed = Some 21000,
       Status = Some (2 ^ 63), To = None, TransactionHash = [0xab, 0xcd],
       TransactionIndex = None \<rparr>"

section \<open>The confirmation reconciler\<close>

text \<open>
  The data of the reconciler, as the tests construct and read them:
  \<open>ffcapi.MinimalBlockInfo\<close> and \<open>ffcapi.ConfirmationUpdateResult\<close>. A block number is a
  natural number; hashes are the strings the tests write (\<open>"0xblockwrong"\<close>, \<open>"fork1"\<close>).
\<close>

record MinimalBlockInfo =
  blockNumber :: nat
  blockHash :: string
  parentHash :: string

record ConfirmationUpdateResult =
  confirmations :: "MinimalBlockInfo list"
  newFork :: bool
  confirmed :: bool
  targetConfirmationCount :: nat

text \<open>
  What the block fetcher (\<open>getBlockInfoByNumber\<close>: cache, then \<open>eth_getBlockByNumber\<close>)
  gives for a block number: a block, nil for a JSON \<open>null\<close>, or the transport error.
\<close>

datatype fetched = Block MinimalBlockInfo | NotFound | FetchFailure string

subsection \<open>The validator of the caller's list\<close>

text \<open>
  Modelled from the spec: \<open>validateExistingConfirmations\<close> is called by the tests
  (\<open>TestValidateExistingConfirmations_LowerBlockNumber\<close>, \<open>_Gap\<close>, \<open>_BrokenHash\<close>) but its body is
  not among the sources. Section 4.C: walking the list in order, an error for a non-monotone
  step (next number \<open>\<le>\<close> previous), a gap (next number \<open>\<noteq>\<close> previous + 1) or a broken parent
  link (next parent hash \<open>\<noteq>\<close> previous block hash); the empty list and a single block are valid.
\<close>

fun validateFrom :: "MinimalBlockInfo \<Rightarrow> MinimalBlockInfo list \<Rightarrow> error option" where
  "validateFrom previousBlock [] = None"
| "validateFrom previousBlock (b # bs) =
     (if blockNumber b \<le> blockNumber previousBlock then Some InvalidExistingConfirmations
      else if blockNumber b \<noteq> blockNumber previousBlock + 1 then Some InvalidExistingConfirmations
      else if parentHash b \<noteq> blockHash previousBlock then Some InvalidExistingConfirmations
      else validateFrom b bs)"

definition validateExistingConfirmations :: "MinimalBlockInfo list \<Rightarrow> error option" where
  "validateExistingConfirmations existingConfirmations =
     (case existingConfirmations of [] \<Rightarrow> None | b # bs \<Rightarrow> validateFrom b bs)"

text \<open>
  The adjacency rule of section 3 for one position of a list: entry \<open>i + 1\<close> has the number of
  entry \<open>i\<close> plus one and names the hash of entry \<open>i\<close> as its parent.
\<close>

definition adjacentAt :: "MinimalBlockInfo list \<Rightarrow> nat \<Rightarrow> bool" where
  "adjacentAt bs i =
     (blockNumber (bs ! Suc i) = blockNumber (bs ! i) + 1 \<and>
      parentHash (bs ! Suc i) = blockHash (bs ! i))"

text \<open>The three violations section 4.C lists, for one position of a list.\<close>

definition violatesAt :: "MinimalBlockInfo list \<Rightarrow> nat \<Rightarrow> bool" where
  "violatesAt bs i =
     (blockNumber (bs ! Suc i) \<noteq> blockNumber (bs ! i) + 1 \<or>
      blockNumber (bs ! Suc i) \<le> blockNumber (bs ! i) \<or>
      parentHash (bs ! Suc i) \<noteq> blockHash (bs ! i))"

subsection \<open>The canonical chain snapshot\<close>

text \<open>
  The snapshot is the list of the blocks of \<open>bl.canonicalChain\<close>, front first.
  \<open>getByNumber\<close> is the lookup of section 4.B.
\<close>

definition getByNumber :: "MinimalBlockInfo list \<Rightarrow> nat \<Rightarrow> MinimalBlockInfo option" where
  "getByNumber chain n = find (\<lambda>b. blockNumber b = n) chain"

text \<open>The snapshot's own invariant (section 3): the adjacency rule holds along it.\<close>

definition chainAdjacent :: "MinimalBlockInfo list \<Rightarrow> bool" where
  "chainAdjacent chain = (validateExistingConfirmations chain = None)"

subsection \<open>Building the confirmation list\<close>

text \<open>
  Step 6 of section 4.F: the result carries the list, the fork flag, the target, and
  \<open>confirmed = len(result) >= targetDepth + 1\<close>.
\<close>

definition finalize :: "MinimalBlockInfo list \<Rightarrow> bool \<Rightarrow> nat \<Rightarrow> ConfirmationUpdateResult" where
  "finalize confs fork target =
     \<lparr> confirmations = confs, newFork = fork,
       confirmed = (target + 1 \<le> length confs),
       targetConfirmationCount = target \<rparr>"

text \<open>
  A position mismatch (step 4): a block of the new list and a block of the caller's list with
  the same number and different hashes.
\<close>

definition positionMismatch :: "MinimalBlockInfo list \<Rightarrow> MinimalBlockInfo list \<Rightarrow> bool" where
  "positionMismatch existingConfirmations newList =
     list_ex (\<lambda>r. list_ex (\<lambda>e. blockNumber e = blockNumber r \<and> blockHash e \<noteq> blockHash r)
                     existingConfirmations) newList"

text \<open>
  Filling the gap between the transaction block and the first block known above it, downwards:
  \<open>fillGap fetch trusted tx k acc\<close> has the linked blocks \<open>acc\<close> and still needs the \<open>k\<close>
  blocks numbered \<open>tx + 1 .. tx + k\<close>. The block at \<open>tx + k\<close> is taken from the caller's
  (validated) list when the entry there is the parent of the lowest block so far, and the
  caller's list then supplies everything below it; otherwise the block is fetched. A fetch
  error and a missing block both end the call with an error (tests
  \<open>TestCompareAndUpdateConfirmationQueue_FailedToFetchBlockInfo\<close> and \<open>_NilBlockInfo\<close>), as does
  a block that is not the parent of the block above it.
\<close>

fun fillGap ::
  "(nat \<Rightarrow> fetched) \<Rightarrow> MinimalBlockInfo list \<Rightarrow> MinimalBlockInfo \<Rightarrow> nat
     \<Rightarrow> MinimalBlockInfo list \<Rightarrow> error + MinimalBlockInfo list" where
  "fillGap fetch trusted tx k [] = Inl FailedToBuildConfirmationQueue"
| "fillGap fetch trusted tx 0 (c # acc) =
     (if parentHash c = blockHash tx then Inr (tx # c # acc)
      else Inl FailedToBuildConfirmationQueue)"
| "fillGap fetch trusted tx (Suc k) (c # acc) =
     (case find (\<lambda>e. blockNumber e = blockNumber tx + Suc k \<and> blockHash e = parentHash c) trusted of
        Some e \<Rightarrow> Inr (take (Suc (Suc k)) trusted @ c # acc)
      | None \<Rightarrow>
          (case fetch (blockNumber tx + Suc k) of
             FetchFailure msg \<Rightarrow> Inl (RPCError msg)
           | NotFound \<Rightarrow> Inl BlockNotAvailable_FF23011
           | Block b \<Rightarrow>
               if blockHash b = parentHash c then fillGap fetch trusted tx k (b # c # acc)
               else Inl FailedToBuildConfirmationQueue))"

text \<open>
  Modelled from the spec: \<open>buildConfirmationList\<close> (the reconciler of section 4.F, after the
  transaction block is resolved) is called by the tests of the repository but its body is not
  among the sources. The model follows section 4.F, and follows the tests, which are code,
  where they assert another outcome than the text:
  \<^item> a snapshot that is empty or ends below the transaction block is an error
    (\<open>_EmptyChain\<close>, \<open>_ChainTooShort\<close>: \<open>FF23062\<close>);
  \<^item> a target of zero gives the transaction block alone, confirmed, with no fork
    (\<open>_NilConfirmationMap_ZeroConfirmationCount\<close>, \<open>_NewForkAfterFirstConfirmation_ZeroConfirmationCount\<close>);
  \<^item> a caller's list that fails validation is not an error: it is dropped and reported as a
    fork (\<open>_CorruptedExistingConfirmationDoNotAffectConfirmations\<close>,
    \<open>_CorruptedExistingConfirmationAfterFirstConfirmation\<close>, \<open>_ConnectionNodeMismatch\<close>);
  \<^item> a snapshot that has the transaction block is walked forward and nothing is fetched beyond
    its end (\<open>_NilConfirmationMapUnconfirmed\<close>);
  \<^item> a snapshot that starts above the transaction block is joined to it through the caller's
    list and the fetcher (\<open>_ExistingConfirmationsTooDistant\<close>, \<open>_ConnectionNodeMismatch\<close>,
    \<open>_NewForkAndNoConnectionToCanonicalChain\<close>, \<open>_AlreadyConfirmable\<close>,
    \<open>_AlreadyConfirmableConnectable\<close>, \<open>_HasSufficientConfirmationsButNoOverlapWithCanonicalChain\<close>,
    \<open>_FailedToFetchBlockInfo\<close>, \<open>_NilBlockInfo\<close>).
  Sums of block numbers are not reduced modulo \<open>2 ^ 64\<close>: the text does not say what the code
  does when \<open>txBlock + targetDepth\<close> overflows.
\<close>

definition buildConfirmationList ::
  "MinimalBlockInfo list \<Rightarrow> (nat \<Rightarrow> fetched) \<Rightarrow> MinimalBlockInfo list \<Rightarrow> MinimalBlockInfo
     \<Rightarrow> nat \<Rightarrow> error + ConfirmationUpdateResult" where
  "buildConfirmationList chain fetch existingConfirmations txBlockInfo targetCount =
     (if chain = [] \<or> blockNumber (last chain) < blockNumber txBlockInfo
        then Inl ChainNotCaughtUp_FF23062
      else if targetCount = 0
        then Inr (finalize [txBlockInfo] False targetCount)
      else
        (let txNumber = blockNumber txBlockInfo;
             invalid = (validateExistingConfirmations existingConfirmations \<noteq> None);
             trusted = (if invalid then []
                        else (case existingConfirmations of
                                [] \<Rightarrow> []
                              | e # es \<Rightarrow> if e = txBlockInfo then existingConfirmations else []));
             window = filter (\<lambda>b. txNumber < blockNumber b \<and>
                                   blockNumber b \<le> txNumber + targetCount) chain;
             finish = (\<lambda>newList. Inr (finalize newList
                        (invalid \<or> positionMismatch existingConfirmations newList)
                        targetCount))
         in (case getByNumber chain txNumber of
               Some c \<Rightarrow>
                 if blockHash c \<noteq> blockHash txBlockInfo then
                   (case getByNumber chain (txNumber + 1) of
                      None \<Rightarrow> Inr (finalize [txBlockInfo] False targetCount)
                    | Some d \<Rightarrow>
                        if parentHash d = blockHash txBlockInfo
                        then Inr (finalize [txBlockInfo, d] False targetCount)
                        else Inr (finalize [txBlockInfo] False targetCount))
                 else finish (txBlockInfo # window)
             | None \<Rightarrow>
                 (case window of
                    w # ws \<Rightarrow>
                      (case fillGap fetch trusted txBlockInfo (blockNumber w - txNumber - 1) (w # ws) of
                         Inl err \<Rightarrow> Inl err
                       | Inr newList \<Rightarrow> finish newList)
                  | [] \<Rightarrow>
                      if list_ex (\<lambda>e. blockNumber e = blockNumber (hd chain) \<and>
                                       blockHash e = blockHash (hd chain)) trusted
                      then finish (take (targetCount + 1) trusted)
                      else
                        (case fetch (txNumber + targetCount) of
                           FetchFailure msg \<Rightarrow> Inl (RPCError msg)
                         | NotFound \<Rightarrow> Inl BlockNotAvailable_FF23011
                         | Block b \<Rightarrow>
                             (case fillGap fetch trusted txBlockInfo (targetCount - 1) [b] of
                                Inl err \<Rightarrow> Inl err
                              | Inr newList \<Rightarrow> finish newList))))))"

subsection \<open>The chains and fetchers of the tests\<close>

text \<open>\<open>generateTestHash\<close>: \<open>fmt.Sprintf("0x%060x", index)\<close>.\<close>

fun hexadecimal :: "nat \<Rightarrow> string" where
  "hexadecimal n =
     (if n < 16 then [hexdigit n]
      else hexadecimal (n div 16) @ [hexdigit (n mod 16)])"

declare hexadecimal.simps [simp del]

definition generateTestHash :: "nat \<Rightarrow> string" where
  "generateTestHash index =
     (let ds = hexadecimal index in ''0x'' @ replicate (60 - length ds) (CHR ''0'') @ ds)"

text \<open>The block the test helpers give number \<open>i\<close>; the tests use numbers above zero only.\<close>

definition testBlock :: "nat \<Rightarrow> MinimalBlockInfo" where
  "testBlock i =
     \<lparr> blockNumber = i, blockHash = generateTestHash i, parentHash = generateTestHash (i - 1) \<rparr>"

definition createTestChain :: "nat \<Rightarrow> nat \<Rightarrow> MinimalBlockInfo list" where
  "createTestChain startBlock endBlock = map testBlock [startBlock ..< Suc endBlock]"

text \<open>
  The mocked back end of \<open>newBlockListenerWithTestChain\<close>: the blocks of \<open>blocksToMock\<close> are
  served; any other call has no expectation set and fails the test, which the model shows as an
  error.
\<close>

definition mockFetch :: "nat list \<Rightarrow> nat \<Rightarrow> fetched" where
  "mockFetch blocksToMock n =
     (if n \<in> set blocksToMock then Block (testBlock n) else FetchFailure ''unexpected call'')"

text \<open>
  The back ends of \<open>TestCompareAndUpdateConfirmationQueue_FailedToFetchBlockInfo\<close> and
  \<open>_NilBlockInfo\<close>: only block 105 has an expectation, an RPC error in the first and a nil
  block in the second.
\<close>

definition fetch105 :: "fetched \<Rightarrow> nat \<Rightarrow> fetched" where
  "fetch105 r n = (if n = 105 then r else FetchFailure ''unexpected call'')"

text \<open>
  \<open>fakeParentHash\<close> of \<open>TestReconcileConfirmationsForTransaction_TxBlockNotInCanonicalChain\<close> is
  a random 32-byte hash; any hash that is not the hash of block 1976 will do.
\<close>

definition fakeParentHash :: string where
  "fakeParentHash = ''0x'' @ replicate 64 (CHR ''f'')"

section \<open>Properties of the receipt probe\<close>

lemma Int64_in_range: "- (2 ^ 63) \<le> x \<Longrightarrow> x < 2 ^ 63 \<Longrightarrow> Int64 x = x"
  unfolding Int64_def by (simp add: sint_sbintrunc' signed_take_bit_int_eq_self)

lemma sprintf_prec_d_6_zero: "sprintf_prec_d 6 (Some 0) = ''000000''"
  by code_simp

text \<open>
  Claim C9. When \<open>eth_getTransactionReceipt\<close> answers \<open>null\<close>, \<open>TransactionReceipt\<close> returns
  the receipt-not-available error tagged \<open>ErrorReasonNotFound\<close>; when the RPC call itself fails,
  it returns that transport error as it is, with the empty reason; in both cases the response is
  nil.
\<close>

theorem TransactionReceipt_failures:
  "TransactionReceipt None None h = (None, ErrorReasonNotFound, Some (MsgReceiptNotAvailable h)) \<and>
   TransactionReceipt (Some e) r h = (None, NoReason, Some (RPCError e))"
  by (simp add: TransactionReceipt_def)

theorem TransactionReceipt_failures_witness:
  "TransactionReceipt None None ''0x6197'' =
     (None, ErrorReasonNotFound, Some (MsgReceiptNotAvailable ''0x6197'')) \<and>
   TransactionReceipt (Some ''pop'') None ''0x6197'' = (None, NoReason, Some (RPCError ''pop''))"
  using TransactionReceipt_failures [of "''0x6197''" "''pop''" None] by simp

text \<open>
  Claim C10, as stated, fails: a receipt whose status is \<open>2 ^ 63\<close> has a status that is present
  and greater than zero, and \<open>Success\<close> is false, because the status is read through
  \<open>big.Int.Int64()\<close>.
\<close>

theorem Success_status_2_63_counterexample:
  "Status receipt_status_2_63 = Some (2 ^ 63) \<and> (0::int) < 2 ^ 63 \<and>
   (\<exists>resp. TransactionReceipt None (Some receipt_status_2_63) ''0xabcd'' = (Some resp, NoReason, None)
      \<and> \<not> respSuccess resp)"
  by (simp add: TransactionReceipt_def receipt_status_2_63_def Int64_def)

text \<open>
  Claim C10, amended. For every receipt returned by \<open>TransactionReceipt\<close>, \<open>Success\<close> is true
  if and only if the status is present and its value reduced to a signed 64-bit integer is greater
  than zero, which for a status in the range of \<open>int64\<close> is the value itself; and a missing
  \<open>transactionIndex\<close> is reported as index 0 in the \<open>TransactionIndex\<close> field and in the
  \<open>ProtocolID\<close>.
\<close>

theorem TransactionReceipt_success_and_index:
  assumes "TransactionReceipt None (Some r) h = (Some resp, reason, err)"
  shows "(respSuccess resp \<longleftrightarrow> (\<exists>s. Status r = Some s \<and> 0 < Int64 s)) \<and>
         (\<forall>s. Status r = Some s \<and> - (2 ^ 63) \<le> s \<and> s < 2 ^ 63 \<longrightarrow> (respSuccess resp \<longleftrightarrow> 0 < s)) \<and>
         (TransactionIndex r = None \<longrightarrow>
            respTransactionIndex resp = Some 0 \<and>
            respProtocolID resp = sprintf_prec_d 12 (BlockNumber r) @ ''/000000'')"
  using assms
  by (auto simp: TransactionReceipt_def Let_def ProtocolIDForReceipt_def sprintf_prec_d_6_zero
        Int64_in_range split: option.splits)

theorem TransactionReceipt_success_and_index_witness:
  "\<exists>resp. TransactionReceipt None (Some (receipt_status_2_63\<lparr>Status := Some 1\<rparr>)) ''0xabcd''
            = (Some resp, NoReason, None) \<and>
          respSuccess resp \<and> respTransactionIndex resp = Some 0 \<and>
          respProtocolID resp = ''000000001977/000000''"
proof -
  obtain resp where h:
    "TransactionReceipt None (Some (receipt_status_2_63\<lparr>Status := Some 1\<rparr>)) ''0xabcd''
       = (Some resp, NoReason, None)"
    by (simp add: TransactionReceipt_def Let_def)
  have s: "Status (receipt_status_2_63\<lparr>Status := Some 1\<rparr>) = Some 1"
    and t: "TransactionIndex (receipt_status_2_63\<lparr>Status := Some 1\<rparr>) = None"
    and b: "BlockNumber (receipt_status_2_63\<lparr>Status := Some 1\<rparr>) = Some 1977"
    by (simp_all add: receipt_status_2_63_def)
  have p: "sprintf_prec_d 12 (Some 1977) = ''000000001977''"
    by code_simp
  have i: "Int64 1 = 1"
    by (simp add: Int64_def)
  from TransactionReceipt_success_and_index [OF h] s t b p i
  have "respSuccess resp \<and> respTransactionIndex resp = Some 0 \<and>
        respProtocolID resp = ''000000001977/000000''"
    by simp
  with h show ?thesis by blast
qed

section \<open>The tests of the reconciler, on the model\<close>

text \<open>Facts about the helpers of the tests, so that a test is checked by rewriting.\<close>

lemma testBlock_simps [simp]:
  "blockNumber (testBlock n) = n"
  "blockHash (testBlock n) = generateTestHash n"
  "parentHash (testBlock n) = generateTestHash (n - 1)"
  by (simp_all add: testBlock_def)

lemma length_generateTestHash: "62 \<le> length (generateTestHash n)"
  by (simp add: generateTestHash_def Let_def)

lemma generateTestHash_neq_short [simp]:
  "length s < 62 \<Longrightarrow> generateTestHash n \<noteq> s" "length s < 62 \<Longrightarrow> s \<noteq> generateTestHash n"
  using length_generateTestHash [of n] by auto

lemma find_eq: "find (\<lambda>i. i = n) xs = (if n \<in> set xs then Some n else None)"
  by (induction xs) auto

lemma filter_upt: "filter (\<lambda>i. lo < i \<and> i \<le> hi) [s..<e] = [max s (Suc lo)..<min e (Suc hi)]"
  by (rule sorted_distinct_set_unique) (auto simp: sorted_wrt_filter)

lemma createTestChain_Nil [simp]: "createTestChain s e = [] \<longleftrightarrow> e < s"
  by (auto simp: createTestChain_def)

lemma last_createTestChain [simp]: "s \<le> e \<Longrightarrow> last (createTestChain s e) = testBlock e"
  by (simp add: createTestChain_def last_map)

lemma hd_createTestChain [simp]: "s \<le> e \<Longrightarrow> hd (createTestChain s e) = testBlock s"
  by (simp add: createTestChain_def upt_conv_Cons del: upt_Suc)

lemma getByNumber_createTestChain [simp]:
  "getByNumber (createTestChain s e) n = (if s \<le> n \<and> n \<le> e then Some (testBlock n) else None)"
proof -
  have "find (\<lambda>b. blockNumber b = n) (map testBlock xs) = map_option testBlock (find (\<lambda>i. i = n) xs)" for xs
    by (induction xs) auto
  then show ?thesis
    by (auto simp: getByNumber_def createTestChain_def find_eq)
qed

lemma window_createTestChain [simp]:
  "filter (\<lambda>b. lo < blockNumber b \<and> blockNumber b \<le> hi) (createTestChain s e)
     = map testBlock [max s (Suc lo)..<min (Suc e) (Suc hi)]"
  by (simp add: createTestChain_def filter_map comp_def filter_upt del: upt_Suc)

lemma fillGap_unfold:
  "fillGap fetch trusted tx k (c # acc) =
     (if k = 0 then
        (if parentHash c = blockHash tx then Inr (tx # c # acc) else Inl FailedToBuildConfirmationQueue)
      else
        (case find (\<lambda>e. blockNumber e = blockNumber tx + k \<and> blockHash e = parentHash c) trusted of
           Some e \<Rightarrow> Inr (take (Suc k) trusted @ c # acc)
         | None \<Rightarrow>
             (case fetch (blockNumber tx + k) of
                FetchFailure msg \<Rightarrow> Inl (RPCError msg)
              | NotFound \<Rightarrow> Inl BlockNotAvailable_FF23011
              | Block b \<Rightarrow>
                  if blockHash b = parentHash c then fillGap fetch trusted tx (k - 1) (b # c # acc)
                  else Inl FailedToBuildConfirmationQueue)))"
proof (cases k)
  case 0
  then show ?thesis by simp
next
  case (Suc j)
  show ?thesis unfolding Suc by (simp cong: option.case_cong fetched.case_cong if_cong)
qed

text \<open>
  Every test of \<open>buildConfirmationList\<close>, \<open>ReconcileConfirmationsForTransaction\<close> (from
  the resolved transaction block on) and \<open>validateExistingConfirmations\<close> that is not skipped,
  with the outcome it asserts. Where a test checks only the length of the list or that an error
  is returned, the lemma gives the list or the error of the model.
\<close>

lemmas build_defs = buildConfirmationList_def Let_def finalize_def positionMismatch_def
  validateExistingConfirmations_def fillGap_unfold mockFetch_def fetch105_def

lemma test_EmptyChain:
  "buildConfirmationList (createTestChain 50 50) (mockFetch []) [] (testBlock 100) 5 = Inl ChainNotCaughtUp_FF23062"
  by (simp add: build_defs)

lemma test_ChainTooShort:
  "buildConfirmationList (createTestChain 50 99) (mockFetch []) [] (testBlock 100) 5 = Inl ChainNotCaughtUp_FF23062"
  by (simp add: build_defs)

lemma test_NilConfirmationMap:
  "buildConfirmationList (createTestChain 50 150) (mockFetch []) [] (testBlock 100) 5
     = Inr \<lparr> confirmations = map testBlock [100, 101, 102, 103, 104, 105], newFork = False,
             confirmed = True, targetConfirmationCount = 5 \<rparr>"
  by (simp add: build_defs)

lemma test_ZeroConfirmationCount:
  "buildConfirmationList (createTestChain 50 150) (mockFetch []) [] (testBlock 100) 0
     = Inr \<lparr> confirmations = [testBlock 100], newFork = False, confirmed = True, targetConfirmationCount = 0 \<rparr>"
  by (simp add: build_defs)

lemma test_NilConfirmationMapUnconfirmed:
  "buildConfirmationList (createTestChain 100 104) (mockFetch []) [] (testBlock 100) 5
     = Inr \<lparr> confirmations = map testBlock [100, 101, 102, 103, 104], newFork = False,
             confirmed = False, targetConfirmationCount = 5 \<rparr>"
  by (simp add: build_defs)

lemma test_ExistingConfirmationsTooDistant:
  "buildConfirmationList (createTestChain 145 150) (mockFetch [102, 103, 104, 105])
       [testBlock 100, testBlock 101] (testBlock 100) 5
     = Inr \<lparr> confirmations = map testBlock [100, 101, 102, 103, 104, 105], newFork = False,
             confirmed = True, targetConfirmationCount = 5 \<rparr>"
  by (simp add: build_defs)

lemma test_CorruptedExistingConfirmationDoNotAffectConfirmations:
  "buildConfirmationList (createTestChain 50 150) (mockFetch [])
       [testBlock 100, \<lparr>blockNumber = 101, blockHash = generateTestHash 101, parentHash = ''0xwrongparent''\<rparr>]
       (testBlock 100) 5
     = Inr \<lparr> confirmations = map testBlock [100, 101, 102, 103, 104, 105], newFork = True,
             confirmed = True, targetConfirmationCount = 5 \<rparr>"
  by (simp add: build_defs)

lemma test_ConnectionNodeMismatch:
  "buildConfirmationList (createTestChain 102 150) (mockFetch [101])
       [testBlock 100,
        \<lparr>blockNumber = 101, blockHash = ''0xblockwrong'', parentHash = generateTestHash 100\<rparr>,
        testBlock 102, testBlock 103]
       (testBlock 100) 5
     = Inr \<lparr> confirmations = map testBlock [100, 101, 102, 103, 104, 105], newFork = True,
             confirmed = True, targetConfirmationCount = 5 \<rparr>"
  by (simp add: build_defs)

lemma test_CorruptedExistingConfirmationAfterFirstConfirmation:
  "buildConfirmationList (createTestChain 100 150) (mockFetch [])
       [testBlock 100, testBlock 101,
        \<lparr>blockNumber = 102, blockHash = generateTestHash 102, parentHash = ''0xblockwrong''\<rparr>]
       (testBlock 100) 5
     = Inr \<lparr> confirmations = map testBlock [100, 101, 102, 103, 104, 105], newFork = True,
             confirmed = True, targetConfirmationCount = 5 \<rparr>"
  by (simp add: build_defs)

lemma test_FailedToFetchBlockInfo:
  "buildConfirmationList (createTestChain 150 150) (fetch105 (FetchFailure ''pop''))
       [testBlock 100, testBlock 101,
        \<lparr>blockNumber = 102, blockHash = generateTestHash 102, parentHash = ''0xblockwrong''\<rparr>]
       (testBlock 100) 5
     = Inl (RPCError ''pop'')"
  by (simp add: build_defs)

lemma test_NilBlockInfo:
  "buildConfirmationList (createTestChain 150 150) (fetch105 NotFound)
       [testBlock 100, testBlock 101,
        \<lparr>blockNumber = 102, blockHash = generateTestHash 102, parentHash = ''0xblockwrong''\<rparr>]
       (testBlock 100) 5
     = Inl BlockNotAvailable_FF23011"
  by (simp add: build_defs)

lemma test_NewForkAfterFirstConfirmation:
  "buildConfirmationList (createTestChain 100 150) (mockFetch [])
       [testBlock 100, testBlock 101,
        \<lparr>blockNumber = 102, blockHash = ''fork1'', parentHash = generateTestHash 101\<rparr>]
       (testBlock 100) 5
     = Inr \<lparr> confirmations = map testBlock [100, 101, 102, 103, 104, 105], newFork = True,
             confirmed = True, targetConfirmationCount = 5 \<rparr>"
  by (simp add: build_defs)

lemma test_NewForkAfterFirstConfirmation_ZeroConfirmationCount:
  "buildConfirmationList (createTestChain 100 150) (mockFetch [])
       [testBlock 100, testBlock 101,
        \<lparr>blockNumber = 102, blockHash = ''fork1'', parentHash = generateTestHash 101\<rparr>]
       (testBlock 100) 0
     = Inr \<lparr> confirmations = [testBlock 100], newFork = False, confirmed = True, targetConfirmationCount = 0 \<rparr>"
  by (simp add: build_defs)

lemma test_NewForkAndNoConnectionToCanonicalChain:
  "buildConfirmationList (createTestChain 103 150) (mockFetch [101, 102])
       [testBlock 100,
        \<lparr>blockNumber = 101, blockHash = ''fork1'', parentHash = generateTestHash 100\<rparr>,
        \<lparr>blockNumber = 102, blockHash = ''fork2'', parentHash = ''fork1''\<rparr>,
        \<lparr>blockNumber = 103, blockHash = ''fork3'', parentHash = ''fork2''\<rparr>]
       (testBlock 100) 5
     = Inr \<lparr> confirmations = map testBlock [100, 101, 102, 103, 104, 105], newFork = True,
             confirmed = True, targetConfirmationCount = 5 \<rparr>"
  by (simp add: build_defs)

lemma test_AlreadyConfirmable:
  "buildConfirmationList (createTestChain 103 150) (mockFetch [])
       [testBlock 100, testBlock 101, testBlock 102, testBlock 103,
        \<lparr>blockNumber = 104, blockHash = ''0xblock104'', parentHash = generateTestHash 103\<rparr>,
        \<lparr>blockNumber = 105, blockHash = ''0xblock105'', parentHash = ''0xblock104''\<rparr>]
       (testBlock 100) 2
     = Inr \<lparr> confirmations = map testBlock [100, 101, 102], newFork = False,
             confirmed = True, targetConfirmationCount = 2 \<rparr>"
  by (simp add: build_defs)

lemma test_AlreadyConfirmable_ZeroConfirmationCount:
  "buildConfirmationList (createTestChain 103 150) (mockFetch [])
       [testBlock 100, testBlock 101, testBlock 102, testBlock 103,
        \<lparr>blockNumber = 104, blockHash = ''0xblock104'', parentHash = generateTestHash 103\<rparr>,
        \<lparr>blockNumber = 105, blockHash = ''0xblock105'', parentHash = ''0xblock104''\<rparr>]
       (testBlock 100) 0
     = Inr \<lparr> confirmations = [testBlock 100], newFork = False, confirmed = True, targetConfirmationCount = 0 \<rparr>"
  by (simp add: build_defs)

lemma test_AlreadyConfirmableConnectable:
  "buildConfirmationList (createTestChain 103 150) (mockFetch [101])
       [testBlock 100, testBlock 101, testBlock 102] (testBlock 100) 1
     = Inr \<lparr> confirmations = map testBlock [100, 101], newFork = False,
             confirmed = True, targetConfirmationCount = 1 \<rparr>"
  by (simp add: build_defs)

lemma test_HasSufficientConfirmationsButNoOverlapWithCanonicalChain:
  "buildConfirmationList (createTestChain 104 150) (mockFetch [101])
       [testBlock 100, testBlock 101, testBlock 102] (testBlock 100) 1
     = Inr \<lparr> confirmations = map testBlock [100, 101], newFork = False,
             confirmed = True, targetConfirmationCount = 1 \<rparr>"
  by (simp add: build_defs)

lemma test_ValidExistingConfirmations:
  "buildConfirmationList (createTestChain 50 150) (mockFetch [])
       [testBlock 100, testBlock 101, testBlock 102] (testBlock 100) 5
     = Inr \<lparr> confirmations = map testBlock [100, 101, 102, 103, 104, 105], newFork = False,
             confirmed = True, targetConfirmationCount = 5 \<rparr>"
  by (simp add: build_defs)

lemma test_ValidExistingTxBlock:
  "buildConfirmationList (createTestChain 50 150) (mockFetch []) [testBlock 100] (testBlock 100) 5
     = Inr \<lparr> confirmations = map testBlock [100, 101, 102, 103, 104, 105], newFork = False,
             confirmed = True, targetConfirmationCount = 5 \<rparr>"
  by (simp add: build_defs)

lemma test_ReachTargetConfirmation:
  "buildConfirmationList (createTestChain 50 150) (mockFetch []) [] (testBlock 100) 3
     = Inr \<lparr> confirmations = map testBlock [100, 101, 102, 103], newFork = False,
             confirmed = True, targetConfirmationCount = 3 \<rparr>"
  by (simp add: build_defs)

lemma test_TxBlockNotInCanonicalChain:
  "buildConfirmationList (createTestChain 1976 1978) (mockFetch []) []
       \<lparr>blockNumber = 1977, blockHash = generateTestHash 1977, parentHash = fakeParentHash\<rparr> 5
     = Inr \<lparr> confirmations =
               [\<lparr>blockNumber = 1977, blockHash = generateTestHash 1977, parentHash = fakeParentHash\<rparr>,
                testBlock 1978],
             newFork = False, confirmed = False, targetConfirmationCount = 5 \<rparr>"
  by (simp add: build_defs)

lemma test_NewConfirmation:
  "buildConfirmationList (createTestChain 1976 1978) (mockFetch []) [] (testBlock 1977) 5
     = Inr \<lparr> confirmations = [testBlock 1977, testBlock 1978],
             newFork = False, confirmed = False, targetConfirmationCount = 5 \<rparr>"
  by (simp add: build_defs)

lemma test_Validate_LowerBlockNumber:
  "validateExistingConfirmations
     [testBlock 100, testBlock 101,
      \<lparr>blockNumber = 99, blockHash = generateTestHash 102, parentHash = generateTestHash 101\<rparr>]
     = Some InvalidExistingConfirmations"
  by (simp add: validateExistingConfirmations_def)

lemma test_Validate_Gap:
  "validateExistingConfirmations [testBlock 100, testBlock 101, testBlock 103]
     = Some InvalidExistingConfirmations"
  by (simp add: validateExistingConfirmations_def)

lemma test_Validate_BrokenHash:
  "validateExistingConfirmations
     [testBlock 100, testBlock 101,
      \<lparr>blockNumber = 102, blockHash = generateTestHash 102, parentHash = ''broken''\<rparr>]
     = Some InvalidExistingConfirmations"
  by (simp add: validateExistingConfirmations_def)

section \<open>Properties of the validator\<close>

lemma violates_Cons:
  "(\<exists>i. Suc i < length (p # b # bs) \<and> violatesAt (p # b # bs) i) \<longleftrightarrow>
   violatesAt (p # b # bs) 0 \<or> (\<exists>i. Suc i < length (b # bs) \<and> violatesAt (b # bs) i)"
proof
  assume "\<exists>i. Suc i < length (p # b # bs) \<and> violatesAt (p # b # bs) i"
  then obtain i where i: "Suc i < length (p # b # bs)" "violatesAt (p # b # bs) i" by blast
  show "violatesAt (p # b # bs) 0 \<or> (\<exists>i. Suc i < length (b # bs) \<and> violatesAt (b # bs) i)"
  proof (cases i)
    case 0
    with i show ?thesis by simp
  next
    case (Suc j)
    with i have "Suc j < length (b # bs)" "violatesAt (b # bs) j"
      by (simp_all add: violatesAt_def)
    then show ?thesis by blast
  qed
next
  assume "violatesAt (p # b # bs) 0 \<or> (\<exists>i. Suc i < length (b # bs) \<and> violatesAt (b # bs) i)"
  then show "\<exists>i. Suc i < length (p # b # bs) \<and> violatesAt (p # b # bs) i"
  proof
    assume "violatesAt (p # b # bs) 0"
    then show ?thesis by (intro exI [of _ 0]) simp
  next
    assume "\<exists>i. Suc i < length (b # bs) \<and> violatesAt (b # bs) i"
    then obtain i where "Suc i < length (b # bs)" "violatesAt (b # bs) i" by blast
    then show ?thesis by (intro exI [of _ "Suc i"]) (simp add: violatesAt_def)
  qed
qed

lemma validateFrom_iff:
  "validateFrom p bs \<noteq> None \<longleftrightarrow> (\<exists>i. Suc i < length (p # bs) \<and> violatesAt (p # bs) i)"
proof (induction bs arbitrary: p)
  case Nil
  then show ?case by simp
next
  case (Cons b bs)
  have "violatesAt (p # b # bs) 0 \<longleftrightarrow>
        (blockNumber b \<le> blockNumber p \<or> blockNumber b \<noteq> blockNumber p + 1 \<or> parentHash b \<noteq> blockHash p)"
    by (auto simp: violatesAt_def)
  then show ?case
    unfolding violates_Cons using Cons.IH [of b] by auto
qed

text \<open>
  Claim C8. \<open>validateExistingConfirmations\<close> returns an error exactly when some pair of
  neighbours of the list breaks the chain: the numbers are not consecutive (a gap), the later
  number is not above the earlier one, or the later block's parent hash is not the earlier
  block's hash. The empty list and a list of one block are accepted.
\<close>

theorem validateExistingConfirmations_errors_iff:
  "(validateExistingConfirmations bs \<noteq> None \<longleftrightarrow> (\<exists>i. Suc i < length bs \<and> violatesAt bs i)) \<and>
   validateExistingConfirmations [] = None \<and> validateExistingConfirmations [b] = None"
proof (cases bs)
  case Nil
  then show ?thesis by (simp add: validateExistingConfirmations_def)
next
  case (Cons p ps)
  show ?thesis unfolding Cons using validateFrom_iff [of p ps]
    by (simp add: validateExistingConfirmations_def)
qed

theorem validateExistingConfirmations_errors_iff_witness:
  "validateExistingConfirmations [testBlock 100, testBlock 101, testBlock 103] \<noteq> None \<and>
   Suc 1 < length [testBlock 100, testBlock 101, testBlock 103] \<and>
   violatesAt [testBlock 100, testBlock 101, testBlock 103] 1 \<and>
   validateExistingConfirmations [testBlock 100] = None"
proof -
  have v: "violatesAt [testBlock 100, testBlock 101, testBlock 103] 1"
    by (simp add: violatesAt_def)
  have "\<exists>i. Suc i < length [testBlock 100, testBlock 101, testBlock 103] \<and>
            violatesAt [testBlock 100, testBlock 101, testBlock 103] i"
    using v by (intro exI [of _ 1]) simp
  with validateExistingConfirmations_errors_iff
         [of "[testBlock 100, testBlock 101, testBlock 103]" "testBlock 100"] v
  show ?thesis by simp
qed

section \<open>Properties of the reconciler\<close>

text \<open>
  Claim C1. In every result that \<open>buildConfirmationList\<close> returns, \<open>confirmed\<close> is true
  exactly when the list holds at least the target count plus one blocks (the transaction's block
  and that many after it); with a target of zero the list is the transaction's block alone and
  \<open>confirmed\<close> is true.
\<close>

theorem buildConfirmationList_confirmed:
  assumes "buildConfirmationList chain fetch existingConfirmations txBlockInfo targetCount = Inr r"
  shows "confirmed r = (targetCount + 1 \<le> length (confirmations r)) \<and>
         targetConfirmationCount r = targetCount \<and>
         (targetCount = 0 \<longrightarrow> confirmations r = [txBlockInfo] \<and> confirmed r)"
  using assms
  by (auto simp: buildConfirmationList_def Let_def finalize_def
      split: if_splits option.splits sum.splits list.splits fetched.splits)

theorem buildConfirmationList_confirmed_witness:
  "buildConfirmationList (createTestChain 50 150) (mockFetch []) [] (testBlock 100) 3
     = Inr \<lparr> confirmations = map testBlock [100, 101, 102, 103], newFork = False,
             confirmed = True, targetConfirmationCount = 3 \<rparr> \<and>
   (3::nat) + 1 \<le> length (map testBlock [100, 101, 102, 103])"
proof -
  have b: "buildConfirmationList (createTestChain 50 150) (mockFetch []) [] (testBlock 100) 3
     = Inr \<lparr> confirmations = map testBlock [100, 101, 102, 103], newFork = False,
             confirmed = True, targetConfirmationCount = 3 \<rparr>"
    by (simp add: build_defs)
  from buildConfirmationList_confirmed [OF b] b show ?thesis by simp
qed

end
